theory Spec2Isabelle
  imports Main "HOL-Library.Word"
begin

section \<open>Data model\<close>

text \<open>
  Go's \<open>int\<close> (on a 64-bit platform) and \<open>time.Duration\<close> (an \<open>int64\<close> count of
  nanoseconds) are 64-bit two's complement integers: \<open>+\<close> and \<open>*\<close> wrap around,
  comparisons are signed.
\<close>

type_synonym go_int = "64 word"
type_synonym duration = "64 word"

definition Nanosecond :: duration where
  "Nanosecond = 1"

definition Millisecond :: duration where
  "Millisecond = 1000000 * Nanosecond"

definition Second :: duration where
  "Second = 1000 * Millisecond"

text \<open>The conversion \<open>time.Duration(n)\<close> of an \<open>int\<close>: sign extension to 64 bits.\<close>

definition Duration :: "go_int \<Rightarrow> duration" where
  "Duration n = scast n"

text \<open>
  An \<open>error\<close> value is either a plain message (\<open>errors.New\<close>) or a message with a
  cause (\<open>fmt.wrapError\<close>); the nil error is \<open>None\<close> of \<open>error option\<close>.
\<close>

datatype error = ErrorString string | WrapError string error

fun Error :: "error \<Rightarrow> string" where
  "Error (ErrorString s) = s"
| "Error (WrapError s e) = s"

fun Unwrap :: "error \<Rightarrow> error option" where
  "Unwrap (ErrorString s) = None"
| "Unwrap (WrapError s e) = Some e"

text \<open>
  \<open>fmt.Errorf("failed after max retries: %w", err)\<close>. With a non-nil operand the
  result wraps it; with a nil operand \<open>%w\<close> is a bad verb, printed as
  \<open>%!w(<nil>)\<close>, and the result is a plain error.
\<close>

definition Errorf_max_retries :: "error option \<Rightarrow> error" where
  "Errorf_max_retries err =
     (case err of
        None \<Rightarrow> ErrorString (''failed after max retries: '' @ ''%!w(<nil>)'')
      | Some e \<Rightarrow> WrapError (''failed after max retries: '' @ Error e) e)"

text \<open>The struct \<open>Retrier\<close>: the field \<open>max\<close> and the delay function \<open>delayf\<close>.\<close>

record Retrier =
  max_retries :: go_int
  delayf :: "go_int \<Rightarrow> duration"

definition NewRetrier :: "go_int \<Rightarrow> (go_int \<Rightarrow> duration) \<Rightarrow> Retrier" where
  "NewRetrier m f = \<lparr>max_retries = m, delayf = f\<rparr>"

text \<open>
  A \<open>context.Context\<close> as the retrier sees it. \<open>Done ctx i d\<close> tells whether, in the
  \<open>select\<close> of the suspension that follows invocation \<open>i\<close> of the work, with the timer
  set to \<open>d\<close>, the channel \<open>ctx.Done()\<close> is received before the timer; \<open>Err ctx\<close> is
  what \<open>ctx.Err()\<close> returns once the context is done.
\<close>

record Context =
  Done :: "nat \<Rightarrow> duration \<Rightarrow> bool"
  Err :: "error option"

text \<open>\<open>context.Background()\<close> is never done, and its \<open>Err()\<close> is nil.\<close>

definition Background :: Context where
  "Background = \<lparr>Done = (\<lambda>i d. False), Err = None\<rparr>"

text \<open>
  The work is a Go closure: it may keep state between its invocations and look at the
  context. \<open>work ctx i\<close> is the pair \<open>(err, ret)\<close> it returns at invocation \<open>i\<close>
  (counted from 0) of one run.
\<close>

type_synonym work = "Context \<Rightarrow> nat \<Rightarrow> error option \<times> bool"

section \<open>Delay functions\<close>

definition NoDelay :: "go_int \<Rightarrow> duration" where
  "NoDelay retries = 0"

definition ConstantDelay :: "duration \<Rightarrow> go_int \<Rightarrow> duration" where
  "ConstantDelay delay retries = (let millis = delay in millis * Millisecond)"

definition LinearDelay :: "duration \<Rightarrow> go_int \<Rightarrow> duration" where
  "LinearDelay step retries = step + Duration retries * step"

definition CappedLinearDelay :: "duration \<Rightarrow> duration \<Rightarrow> go_int \<Rightarrow> duration" where
  "CappedLinearDelay step cap retries =
     (let delay = step + Duration retries * step
      in if delay <s cap then delay else cap)"

text \<open>
  \<open>ExponentialDelay\<close> and \<open>CappedExponentialDelay\<close> compute in \<open>float64\<close>
  (\<open>math.Pow\<close>, \<open>math.Min\<close>, and the conversions to and from \<open>int\<close>); they have
  no counterpart here.
\<close>

section \<open>The retry loop\<close>

text \<open>
  \<open>sleep\<close>: the \<open>select\<close> between the timer and \<open>ctx.Done()\<close>.
\<close>

definition sleep :: "Context \<Rightarrow> nat \<Rightarrow> duration \<Rightarrow> error option" where
  "sleep ctx i dur = (if Done ctx i dur then Err ctx else None)"

text \<open>
  What a run leaves behind: the returned error, the \<open>return\<close> statement that ended
  the loop, the number of invocations of the work, and the durations passed to
  \<open>sleep\<close>, in order. Only \<open>returned\<close> is a value of the Go program; the other fields
  record the run.
\<close>

datatype exit = WorkDone | BudgetExhausted | Cancelled

record outcome =
  returned :: "error option"
  exit :: exit
  calls :: nat
  sleeps :: "duration list"

text \<open>
  The \<open>for\<close> loop of \<open>RunCtx\<close>. It may run forever (\<open>max = -1\<close>, work that always
  asks for a retry, a context that is never done): not returning is \<open>None\<close>.
  \<open>n\<close> counts the invocations made so far, \<open>retries\<close> is the loop's counter,
  \<open>acc\<close> the suspensions so far.
\<close>

partial_function (option) RunCtx_loop ::
  "Retrier \<Rightarrow> Context \<Rightarrow> work \<Rightarrow> nat \<Rightarrow> go_int \<Rightarrow> duration list \<Rightarrow> outcome option" where
  "RunCtx_loop r ctx work n retries acc =
     (case work ctx n of (err, ret) \<Rightarrow>
        if \<not> ret then
          Some \<lparr>returned = err, exit = WorkDone, calls = Suc n, sleeps = acc\<rparr>
        else if max_retries r \<noteq> - 1 \<and> max_retries r \<le>s retries then
          Some \<lparr>returned = Some (Errorf_max_retries err), exit = BudgetExhausted,
                calls = Suc n, sleeps = acc\<rparr>
        else
          (case sleep ctx n (delayf r retries) of
             Some err' \<Rightarrow>
               Some \<lparr>returned = Some err', exit = Cancelled, calls = Suc n,
                     sleeps = acc @ [delayf r retries]\<rparr>
           | None \<Rightarrow>
               RunCtx_loop r ctx work (Suc n) (retries + 1) (acc @ [delayf r retries])))"

declare RunCtx_loop.simps [code]

definition RunCtx :: "Retrier \<Rightarrow> Context \<Rightarrow> work \<Rightarrow> outcome option" where
  "RunCtx r ctx work = RunCtx_loop r ctx work 0 0 []"

text \<open>\<open>Run\<close>: the work takes no context; the closure passed on ignores its argument.\<close>

definition Run :: "Retrier \<Rightarrow> (nat \<Rightarrow> error option \<times> bool) \<Rightarrow> outcome option" where
  "Run r work = RunCtx r Background (\<lambda>ctx. work)"

section \<open>Auxiliary facts\<close>

lemma Millisecond_val: "Millisecond = 1000000"
  by (simp add: Millisecond_def Nanosecond_def)

lemma Second_val: "Second = 1000000000"
  by (simp add: Second_def Millisecond_val)

lemma odd_factor_zero:
  fixes d :: "64 word"
  assumes "d * 999999 = 0"
  shows "d = 0"
proof -
  have inv: "(999999 :: 64 word) * 1672254362768354751 = 1"
    by simp
  have "d = d * (999999 * 1672254362768354751)"
    by (simp only: inv mult_1_right)
  also have "\<dots> = (d * 999999) * 1672254362768354751"
    by (simp only: mult.assoc)
  also have "\<dots> = 0"
    by (simp only: assms mult_zero_left)
  finally show ?thesis .
qed

text \<open>One unfolding of the loop, by the branch taken.\<close>

lemma RunCtx_loop_stop:
  "work ctx n = (err, False) \<Longrightarrow>
   RunCtx_loop r ctx work n retries acc =
     Some \<lparr>returned = err, exit = WorkDone, calls = Suc n, sleeps = acc\<rparr>"
  by (subst RunCtx_loop.simps) simp

lemma RunCtx_loop_exhausted:
  "work ctx n = (err, True) \<Longrightarrow> max_retries r \<noteq> - 1 \<Longrightarrow> max_retries r \<le>s retries \<Longrightarrow>
   RunCtx_loop r ctx work n retries acc =
     Some \<lparr>returned = Some (Errorf_max_retries err), exit = BudgetExhausted,
           calls = Suc n, sleeps = acc\<rparr>"
  by (subst RunCtx_loop.simps) simp

lemma RunCtx_loop_cancelled:
  "snd (work ctx n) \<Longrightarrow> max_retries r = - 1 \<or> retries <s max_retries r \<Longrightarrow>
   sleep ctx n (delayf r retries) = Some e \<Longrightarrow>
   RunCtx_loop r ctx work n retries acc =
     Some \<lparr>returned = Some e, exit = Cancelled, calls = Suc n,
           sleeps = acc @ [delayf r retries]\<rparr>"
  by (subst RunCtx_loop.simps) (auto split: prod.splits)

lemma RunCtx_loop_retry:
  "snd (work ctx n) \<Longrightarrow> max_retries r = - 1 \<or> retries <s max_retries r \<Longrightarrow>
   sleep ctx n (delayf r retries) = None \<Longrightarrow>
   RunCtx_loop r ctx work n retries acc =
     RunCtx_loop r ctx work (Suc n) (retries + 1) (acc @ [delayf r retries])"
  by (subst RunCtx_loop.simps) (auto split: prod.splits)

text \<open>\<open>k\<close> iterations that all ask for a retry, stay within the budget and sleep to the end.\<close>

lemma RunCtx_loop_retries:
  assumes "\<forall>i<k. snd (work ctx (n + i))
      \<and> (max_retries r = - 1 \<or> retries + of_nat i <s max_retries r)
      \<and> sleep ctx (n + i) (delayf r (retries + of_nat i)) = None"
  shows "RunCtx_loop r ctx work n retries acc =
     RunCtx_loop r ctx work (n + k) (retries + of_nat k)
       (acc @ map (\<lambda>i. delayf r (retries + of_nat i)) [0..<k])"
  using assms
proof (induction k)
  case 0
  then show ?case by simp
next
  case (Suc k)
  then have "RunCtx_loop r ctx work n retries acc =
     RunCtx_loop r ctx work (n + k) (retries + of_nat k)
       (acc @ map (\<lambda>i. delayf r (retries + of_nat i)) [0..<k])"
    by simp
  also have "\<dots> = RunCtx_loop r ctx work (Suc (n + k)) (retries + of_nat k + 1)
       ((acc @ map (\<lambda>i. delayf r (retries + of_nat i)) [0..<k]) @ [delayf r (retries + of_nat k)])"
    using Suc.prems by (intro RunCtx_loop_retry) simp_all
  finally show ?case by (simp add: ac_simps)
qed

lemma RunCtx_retries:
  assumes "\<forall>i<k. snd (work ctx i)
      \<and> (max_retries r = - 1 \<or> of_nat i <s max_retries r)
      \<and> sleep ctx i (delayf r (of_nat i)) = None"
  shows "RunCtx r ctx work =
     RunCtx_loop r ctx work k (of_nat k) (map (\<lambda>i. delayf r (of_nat i)) [0..<k])"
  using RunCtx_loop_retries [of k work ctx 0 r 0 "[]"] assms
  by (simp add: RunCtx_def)

text \<open>The loop counter against the bound: signed comparison of 64-bit values.\<close>

lemma sint_of_nat_small:
  "int i < 2 ^ 63 \<Longrightarrow> sint (of_nat i :: 64 word) = int i"
  by (simp add: signed_of_nat signed_take_bit_int_eq_self)

lemma of_nat_sless:
  fixes m :: "64 word"
  assumes "int i < sint m"
  shows "of_nat i <s m"
proof -
  have "sint m < 2 ^ 63"
    using sint_lt [of m] by simp
  with assms have "sint (of_nat i :: 64 word) = int i"
    by (intro sint_of_nat_small) simp
  with assms show ?thesis
    by (simp add: word_sless_alt)
qed

lemma of_nat_nat_sint:
  fixes m :: "64 word"
  assumes "0 \<le>s m"
  shows "of_nat (nat (sint m)) = m"
proof -
  from assms have "0 \<le> sint m"
    by (simp add: word_sle_eq)
  then have "(of_nat (nat (sint m)) :: 64 word) = of_int (sint m)"
    by simp
  then show ?thesis by simp
qed

text \<open>
  Every way out of the loop: the \<open>return\<close> statement taken and what it returns. The
  loop is a least fixed point, so the proof is by its fixed-point induction.
\<close>

lemma RunCtx_loop_exits:
  assumes run: "RunCtx_loop r ctx work n retries acc = Some out"
  shows "(exit out = WorkDone \<and> (\<exists>i. work ctx i = (returned out, False) \<and> calls out = Suc i))
    \<or> (exit out = BudgetExhausted \<and> max_retries r \<noteq> - 1
        \<and> (\<exists>i. snd (work ctx i) \<and> returned out = Some (Errorf_max_retries (fst (work ctx i)))
              \<and> calls out = Suc i))
    \<or> (exit out = Cancelled \<and> returned out = Err ctx \<and> returned out \<noteq> None
        \<and> (\<exists>i d. Done ctx i d \<and> calls out = Suc i))"
proof -
  define Q :: "Retrier \<Rightarrow> Context \<Rightarrow> work \<Rightarrow> outcome \<Rightarrow> bool" where
    "Q = (\<lambda>r ctx work out.
      (exit out = WorkDone \<and> (\<exists>i. work ctx i = (returned out, False) \<and> calls out = Suc i))
    \<or> (exit out = BudgetExhausted \<and> max_retries r \<noteq> - 1
        \<and> (\<exists>i. snd (work ctx i) \<and> returned out = Some (Errorf_max_retries (fst (work ctx i)))
              \<and> calls out = Suc i))
    \<or> (exit out = Cancelled \<and> returned out = Err ctx \<and> returned out \<noteq> None
        \<and> (\<exists>i d. Done ctx i d \<and> calls out = Suc i)))"
  have "Q r ctx work out"
  proof (rule RunCtx_loop.raw_induct
      [where P = "\<lambda>r ctx work n retries acc out. Q r ctx work out", OF _ run], goal_cases)
    case (1 loop r ctx work n retries acc out)
    note IH = "1" (1) and body = "1" (2)
    obtain err ret where w: "work ctx n = (err, ret)"
      by (cases "work ctx n")
    show ?case
    proof (cases "ret")
      case False
      from body have "out = \<lparr>returned = err, exit = WorkDone, calls = Suc n, sleeps = acc\<rparr>"
        by (simp add: w False)
      then have "exit out = WorkDone
          \<and> (\<exists>i. work ctx i = (returned out, False) \<and> calls out = Suc i)"
        using w False by (intro conjI exI [of _ n]) simp_all
      then show ?thesis unfolding Q_def by (rule disjI1)
    next
      case True
      note ret = True
      show ?thesis
      proof (cases "max_retries r \<noteq> - 1 \<and> max_retries r \<le>s retries")
        case True
        from body have "out = \<lparr>returned = Some (Errorf_max_retries err),
            exit = BudgetExhausted, calls = Suc n, sleeps = acc\<rparr>"
          by (simp add: w ret True)
        then have "exit out = BudgetExhausted \<and> max_retries r \<noteq> - 1
          \<and> (\<exists>i. snd (work ctx i) \<and> returned out = Some (Errorf_max_retries (fst (work ctx i)))
                \<and> calls out = Suc i)"
          using w ret True by (intro conjI exI [of _ n]) simp_all
        then show ?thesis unfolding Q_def by (rule disjI2 [OF disjI1])
      next
        case False
        note budget = False
        show ?thesis
        proof (cases "sleep ctx n (delayf r retries)")
          case None
          from body have "loop r ctx work (Suc n) (retries + 1)
              (acc @ [delayf r retries]) = Some out"
            using budget by (simp add: w ret None)
          then show ?thesis by (rule IH)
        next
          case (Some e)
          from body have "out = \<lparr>returned = Some e, exit = Cancelled,
              calls = Suc n, sleeps = acc @ [delayf r retries]\<rparr>"
            using budget by (simp add: w ret Some)
          moreover from Some have "Done ctx n (delayf r retries)" and "Err ctx = Some e"
            by (simp_all add: sleep_def split: if_splits)
          ultimately have "exit out = Cancelled \<and> returned out = Err ctx \<and> returned out \<noteq> None
              \<and> (\<exists>i d. Done ctx i d \<and> calls out = Suc i)"
            by (intro conjI exI [of _ n] exI [of _ "delayf r retries"]) simp_all
          then show ?thesis unfolding Q_def by (rule disjI2 [OF disjI2])
        qed
      qed
    qed
  qed
  then show ?thesis unfolding Q_def .
qed

text \<open>
  The loop depends on the context only through \<open>sleep\<close> and through what the work
  makes of it.
\<close>

lemma RunCtx_loop_transfer:
  assumes run: "RunCtx_loop r ctx work n retries acc = Some out"
    and same_sleep: "\<forall>i d. sleep ctx i d = sleep ctx' i d"
    and same_work: "\<forall>i. work ctx i = work' ctx' i"
  shows "RunCtx_loop r ctx' work' n retries acc = Some out"
proof -
  define T :: "Retrier \<Rightarrow> Context \<Rightarrow> work \<Rightarrow> nat \<Rightarrow> go_int \<Rightarrow> duration list \<Rightarrow> outcome \<Rightarrow> bool"
    where "T = (\<lambda>r ctx work n retries acc out.
      (\<forall>i d. sleep ctx i d = sleep ctx' i d) \<longrightarrow> (\<forall>i. work ctx i = work' ctx' i) \<longrightarrow>
      RunCtx_loop r ctx' work' n retries acc = Some out)"
  have "T r ctx work n retries acc out"
  proof (rule RunCtx_loop.raw_induct [where P = T, OF _ run], goal_cases)
    case (1 loop r ctx work n retries acc out)
    note IH = "1" (1) and body = "1" (2)
    show ?case
      unfolding T_def
    proof (intro impI)
      assume sl: "\<forall>i d. sleep ctx i d = sleep ctx' i d"
        and wk: "\<forall>i. work ctx i = work' ctx' i"
      obtain err ret where w: "work ctx n = (err, ret)"
        by (cases "work ctx n")
      with wk have w': "work' ctx' n = (err, ret)"
        by simp
      show "RunCtx_loop r ctx' work' n retries acc = Some out"
      proof (cases "ret")
        case False
        from body have "out = \<lparr>returned = err, exit = WorkDone, calls = Suc n, sleeps = acc\<rparr>"
          by (simp add: w False)
        with w' False show ?thesis
          by (simp add: RunCtx_loop_stop)
      next
        case True
        note ret = True
        show ?thesis
        proof (cases "max_retries r \<noteq> - 1 \<and> max_retries r \<le>s retries")
          case True
          from body have "out = \<lparr>returned = Some (Errorf_max_retries err),
              exit = BudgetExhausted, calls = Suc n, sleeps = acc\<rparr>"
            by (simp add: w ret True)
          with w' ret True show ?thesis
            by (simp add: RunCtx_loop_exhausted)
        next
          case False
          then have budget: "max_retries r = - 1 \<or> retries <s max_retries r"
            by auto
          from w' ret have retry': "snd (work' ctx' n)"
            by simp
          show ?thesis
          proof (cases "sleep ctx n (delayf r retries)")
            case None
            from body have "loop r ctx work (Suc n) (retries + 1)
                (acc @ [delayf r retries]) = Some out"
              using False by (simp add: w ret None)
            then have "T r ctx work (Suc n) (retries + 1) (acc @ [delayf r retries]) out"
              by (rule IH)
            with sl wk have "RunCtx_loop r ctx' work' (Suc n) (retries + 1)
                (acc @ [delayf r retries]) = Some out"
              by (simp add: T_def)
            moreover from None sl have "sleep ctx' n (delayf r retries) = None"
              by simp
            ultimately show ?thesis
              using retry' budget by (simp add: RunCtx_loop_retry)
          next
            case (Some e)
            from body have "out = \<lparr>returned = Some e, exit = Cancelled,
                calls = Suc n, sleeps = acc @ [delayf r retries]\<rparr>"
              using False by (simp add: w ret Some)
            moreover from Some sl have "sleep ctx' n (delayf r retries) = Some e"
              by simp
            ultimately show ?thesis
              using retry' budget by (simp add: RunCtx_loop_cancelled)
          qed
        qed
      qed
    qed
  qed
  with same_sleep same_work show ?thesis
    by (simp add: T_def)
qed

lemma RunCtx_loop_cong:
  assumes same_sleep: "\<forall>i d. sleep ctx i d = sleep ctx' i d"
    and same_work: "\<forall>i. work ctx i = work' ctx' i"
  shows "RunCtx_loop r ctx work n retries acc = RunCtx_loop r ctx' work' n retries acc"
proof (cases "RunCtx_loop r ctx work n retries acc")
  case (Some out)
  then have "RunCtx_loop r ctx' work' n retries acc = Some out"
    using same_sleep same_work by (rule RunCtx_loop_transfer)
  with Some show ?thesis by simp
next
  case None
  show ?thesis
  proof (cases "RunCtx_loop r ctx' work' n retries acc")
    case None
    with \<open>RunCtx_loop r ctx work n retries acc = None\<close> show ?thesis by simp
  next
    case (Some out)
    moreover from same_sleep have "\<forall>i d. sleep ctx' i d = sleep ctx i d"
      by simp
    moreover from same_work have "\<forall>i. work' ctx' i = work ctx i"
      by simp
    ultimately have "RunCtx_loop r ctx work n retries acc = Some out"
      by (rule RunCtx_loop_transfer)
    with None show ?thesis by simp
  qed
qed

section \<open>Delay functions: properties\<close>

text \<open>
  C2. The claim: \<open>ConstantDelay(d)\<close> applied to any index returns exactly \<open>d\<close>.
  The code multiplies its argument by \<open>time.Millisecond\<close>: the value returned is
  \<open>1000000 * d\<close> (in 64 bits), which is \<open>d\<close> only for \<open>d = 0\<close>; for one second it
  is one million seconds.
\<close>

theorem ConstantDelay_scaled:
  "ConstantDelay d n = 1000000 * d \<and> (ConstantDelay d n = d \<longleftrightarrow> d = 0)
   \<and> sint (ConstantDelay Second n) = 1000000 * sint Second"
proof -
  have a: "ConstantDelay d n = 1000000 * d"
    by (simp add: ConstantDelay_def Millisecond_val)
  have "d = 0" if "1000000 * d = d"
  proof -
    from that have "d * 999999 = 1000000 * d - d"
      by (simp add: algebra_simps)
    with that show ?thesis
      using odd_factor_zero [of d] by simp
  qed
  then have b: "ConstantDelay d n = d \<longleftrightarrow> d = 0"
    unfolding a by auto
  have c: "sint (ConstantDelay Second n) = 1000000 * sint Second"
    by (simp add: ConstantDelay_def Millisecond_val Second_val)
  from a b c show ?thesis by blast
qed

text \<open>
  C8. \<open>LinearDelay(step)\<close> applied to index \<open>n\<close> returns \<open>step + n * step\<close>, in the
  arithmetic of \<open>time.Duration\<close>: the 64-bit sum and product, that is the integer
  \<open>step + n * step\<close> reduced to the signed 64-bit range, and that integer itself
  whenever it lies in the range. With a step of one second the indices 0, 1 and 25
  give 1s, 2s and 26s.
\<close>

theorem LinearDelay_formula:
  "LinearDelay step n = step + n * step
   \<and> sint (LinearDelay step n) = signed_take_bit 63 (sint step + sint n * sint step)
   \<and> (- (2 ^ 63) \<le> sint step + sint n * sint step \<and> sint step + sint n * sint step < 2 ^ 63
        \<longrightarrow> sint (LinearDelay step n) = sint step + sint n * sint step)"
proof -
  have a: "LinearDelay step n = step + n * step"
    by (simp add: LinearDelay_def Duration_def)
  have "sint (step + n * step) = signed_take_bit 63 (sint step + sint (n * step))"
    by (simp add: sint_word_add)
  also have "\<dots> = signed_take_bit 63 (sint step + signed_take_bit 63 (sint n * sint step))"
    by (simp add: sint_word_mult)
  also have "\<dots> = signed_take_bit 63 (signed_take_bit 63 (sint step)
      + signed_take_bit 63 (signed_take_bit 63 (sint n * sint step)))"
    by (rule signed_take_bit_add [symmetric])
  also have "\<dots> = signed_take_bit 63 (signed_take_bit 63 (sint step)
      + signed_take_bit 63 (sint n * sint step))"
    by simp
  also have "\<dots> = signed_take_bit 63 (sint step + sint n * sint step)"
    by (rule signed_take_bit_add)
  finally have b: "sint (LinearDelay step n) = signed_take_bit 63 (sint step + sint n * sint step)"
    by (simp only: a)
  have c: "sint (LinearDelay step n) = sint step + sint n * sint step"
    if "- (2 ^ 63) \<le> sint step + sint n * sint step" "sint step + sint n * sint step < 2 ^ 63"
    using that by (simp only: b signed_take_bit_int_eq_self)
  from a b c show ?thesis by blast
qed

theorem LinearDelay_formula_witness:
  "sint (LinearDelay Second 0) = sint Second
   \<and> sint (LinearDelay Second 1) = 2 * sint Second
   \<and> sint (LinearDelay Second 25) = 26 * sint Second"
  using LinearDelay_formula [of Second 0] LinearDelay_formula [of Second 1]
    LinearDelay_formula [of Second 25]
  by (simp add: Second_val)

section \<open>The retry loop: properties\<close>

text \<open>
  C5. If the first invocation of the work returns \<open>(err, false)\<close>, with \<open>err\<close> nil or
  not, then \<open>RunCtx\<close> returns \<open>err\<close> as it is after that one invocation: no
  suspension, hence no call of the delay function, whatever the bound, the delay
  function and the context are.
\<close>

theorem RunCtx_no_retry:
  assumes "work ctx 0 = (err, False)"
  shows "RunCtx r ctx work =
     Some \<lparr>returned = err, exit = WorkDone, calls = 1, sleeps = []\<rparr>"
  using assms by (simp add: RunCtx_def RunCtx_loop_stop)

theorem RunCtx_no_retry_witness:
  "RunCtx (NewRetrier 5 (ConstantDelay 5)) Background
      (\<lambda>ctx i. (Some (ErrorString ''fatal error''), False)) =
     Some \<lparr>returned = Some (ErrorString ''fatal error''), exit = WorkDone, calls = 1,
           sleeps = []\<rparr>
   \<and> RunCtx (NewRetrier (- 1) NoDelay) Background (\<lambda>ctx i. (None, False)) =
     Some \<lparr>returned = None, exit = WorkDone, calls = 1, sleeps = []\<rparr>"
  using RunCtx_no_retry [of "\<lambda>ctx i. (Some (ErrorString ''fatal error''), False)"
      Background "Some (ErrorString ''fatal error'')" "NewRetrier 5 (ConstantDelay 5)"]
    RunCtx_no_retry [of "\<lambda>ctx i. (None, False)" Background None "NewRetrier (- 1) NoDelay"]
  by simp

text \<open>
  C4. If the work asks for a retry at its first \<open>k\<close> invocations and returns
  \<open>(nil, false)\<close> at the next one, \<open>k\<close> is within the budget (the bound is \<open>-1\<close> or at
  least \<open>k\<close>) and the context is never done, then \<open>RunCtx\<close> returns nil after
  \<open>k + 1\<close> invocations and exactly \<open>k\<close> suspensions, of the durations
  \<open>delayf 0, \<dots>, delayf (k - 1)\<close>: the delay function at the successive values of the
  counter \<open>retries\<close>.
\<close>

theorem RunCtx_retry_then_stop:
  assumes retry: "\<forall>i<k. snd (work ctx i)"
    and stop: "work ctx k = (None, False)"
    and budget: "max_retries r = - 1 \<or> int k \<le> sint (max_retries r)"
    and quiet: "\<forall>i d. \<not> Done ctx i d"
  shows "RunCtx r ctx work =
     Some \<lparr>returned = None, exit = WorkDone, calls = Suc k,
           sleeps = map (\<lambda>i. delayf r (of_nat i)) [0..<k]\<rparr>"
proof -
  have "\<forall>i<k. snd (work ctx i)
      \<and> (max_retries r = - 1 \<or> of_nat i <s max_retries r)
      \<and> sleep ctx i (delayf r (of_nat i)) = None"
    using retry budget quiet by (auto simp add: sleep_def intro: of_nat_sless)
  then have "RunCtx r ctx work =
     RunCtx_loop r ctx work k (of_nat k) (map (\<lambda>i. delayf r (of_nat i)) [0..<k])"
    by (rule RunCtx_retries)
  with stop show ?thesis
    by (simp add: RunCtx_loop_stop)
qed

theorem RunCtx_retry_then_stop_witness:
  "RunCtx (NewRetrier 5 (LinearDelay Second)) Background
      (\<lambda>ctx i. if i < 3 then (Some (ErrorString ''count too small''), True) else (None, False)) =
     Some \<lparr>returned = None, exit = WorkDone, calls = 4,
           sleeps = [Second, 2 * Second, 3 * Second]\<rparr>"
proof -
  let ?work = "\<lambda>(ctx::Context) (i::nat).
     if i < 3 then (Some (ErrorString ''count too small''), True) else (None, False)"
  let ?r = "NewRetrier 5 (LinearDelay Second)"
  have a: "\<forall>i<3. snd (?work Background i)" by simp
  have b: "?work Background 3 = (None, False)" by simp
  have c: "max_retries ?r = - 1 \<or> int 3 \<le> sint (max_retries ?r)"
    by (simp add: NewRetrier_def)
  have d: "\<forall>i d. \<not> Done Background i d" by (simp add: Background_def)
  have e: "[0..<3] = [0, 1, 2]" by (simp add: upt_rec)
  show ?thesis
    using RunCtx_retry_then_stop [OF a b c d]
    by (simp add: e NewRetrier_def LinearDelay_def Duration_def)
qed

text \<open>
  C1. With a bound \<open>m \<ge> 0\<close>, work that returns a non-nil error and asks for a retry at
  every invocation, and a context that is not done during any of the \<open>m\<close> suspensions,
  \<open>RunCtx\<close> terminates: it returns the error of \<open>fmt.Errorf\<close> that wraps the error of
  the last invocation, with the message prefix \<open>failed after max retries: \<close>, after
  \<open>m + 1\<close> invocations and exactly \<open>m\<close> suspensions. The bound counts retries, not
  attempts.

  Without the condition on the context the statement fails: a context that is done
  during a suspension ends the run with the context's error, before the budget is
  used up.
\<close>

theorem RunCtx_budget:
  assumes bound: "0 \<le>s max_retries r"
    and fails: "\<forall>i. work ctx i = (Some (err i), True)"
    and quiet: "\<forall>i < nat (sint (max_retries r)). \<not> Done ctx i (delayf r (of_nat i))"
  shows "RunCtx r ctx work =
     Some \<lparr>returned = Some (WrapError (''failed after max retries: ''
               @ Error (err (nat (sint (max_retries r))))) (err (nat (sint (max_retries r))))),
           exit = BudgetExhausted, calls = Suc (nat (sint (max_retries r))),
           sleeps = map (\<lambda>i. delayf r (of_nat i)) [0..<nat (sint (max_retries r))]\<rparr>"
proof -
  define m where "m = nat (sint (max_retries r))"
  from bound have pos: "0 \<le> sint (max_retries r)"
    by (simp add: word_sle_eq)
  have m_eq: "of_nat m = max_retries r"
    unfolding m_def using bound by (rule of_nat_nat_sint)
  from pos have not_sentinel: "max_retries r \<noteq> - 1"
    by auto
  have "\<forall>i<m. snd (work ctx i)
      \<and> (max_retries r = - 1 \<or> of_nat i <s max_retries r)
      \<and> sleep ctx i (delayf r (of_nat i)) = None"
    using fails quiet pos by (auto simp add: sleep_def m_def intro!: of_nat_sless)
  then have "RunCtx r ctx work =
     RunCtx_loop r ctx work m (of_nat m) (map (\<lambda>i. delayf r (of_nat i)) [0..<m])"
    by (rule RunCtx_retries)
  also have "\<dots> = Some \<lparr>returned = Some (Errorf_max_retries (Some (err m))),
       exit = BudgetExhausted, calls = Suc m,
       sleeps = map (\<lambda>i. delayf r (of_nat i)) [0..<m]\<rparr>"
    using fails not_sentinel by (intro RunCtx_loop_exhausted) (simp_all add: m_eq)
  finally show ?thesis
    by (simp add: Errorf_max_retries_def m_def)
qed

theorem RunCtx_budget_witness:
  "RunCtx (NewRetrier 2 (LinearDelay Second)) Background
      (\<lambda>ctx i. (Some (ErrorString ''error''), True)) =
     Some \<lparr>returned = Some (WrapError ''failed after max retries: error''
             (ErrorString ''error'')),
           exit = BudgetExhausted, calls = 3, sleeps = [Second, 2 * Second]\<rparr>"
proof -
  let ?r = "NewRetrier 2 (LinearDelay Second)"
  let ?work = "\<lambda>(ctx::Context) (i::nat). (Some (ErrorString ''error''), True)"
  have m: "nat (sint (max_retries ?r)) = 2"
    by (simp add: NewRetrier_def)
  have a: "0 \<le>s max_retries ?r"
    by (simp add: NewRetrier_def word_sle_eq)
  have b: "\<forall>i. ?work Background i = (Some ((\<lambda>i. ErrorString ''error'') i), True)"
    by simp
  have c: "\<forall>i < nat (sint (max_retries ?r)). \<not> Done Background i (delayf ?r (of_nat i))"
    by (simp add: Background_def)
  have e: "[0..<2] = [0, 1]" by (simp add: upt_rec)
  show ?thesis
    using RunCtx_budget [OF a b c]
    by (simp add: m e) (simp add: NewRetrier_def LinearDelay_def Duration_def)
qed

theorem RunCtx_budget_cancelled_counterexample:
  "0 \<le>s max_retries (NewRetrier 5 (ConstantDelay 5))
   \<and> RunCtx (NewRetrier 5 (ConstantDelay 5))
        \<lparr>Done = (\<lambda>i d. i = 2), Err = Some (ErrorString ''context deadline exceeded'')\<rparr>
        (\<lambda>ctx i. (Some (ErrorString ''error''), True)) =
      Some \<lparr>returned = Some (ErrorString ''context deadline exceeded''), exit = Cancelled,
            calls = 3, sleeps = [5000000, 5000000, 5000000]\<rparr>"
  by (simp add: RunCtx_def RunCtx_loop.simps NewRetrier_def sleep_def ConstantDelay_def
      Millisecond_val word_sle_eq)

text \<open>
  C10. Only \<open>-1\<close> lifts the bound. With a bound below \<open>-1\<close> and a first invocation
  that returns \<open>(err, true)\<close>, \<open>RunCtx\<close> returns at once the error made by
  \<open>fmt.Errorf\<close>, whose message starts with \<open>failed after max retries: \<close> and whose
  \<open>Unwrap\<close> is \<open>err\<close>: one invocation, no suspension.
\<close>

theorem RunCtx_below_sentinel:
  assumes "max_retries r <s - 1" and "work ctx 0 = (err, True)"
  shows "RunCtx r ctx work =
     Some \<lparr>returned = Some (Errorf_max_retries err), exit = BudgetExhausted, calls = 1,
           sleeps = []\<rparr>
   \<and> Unwrap (Errorf_max_retries err) = err
   \<and> take 26 (Error (Errorf_max_retries err)) = ''failed after max retries: ''"
proof -
  from assms(1) have "sint (max_retries r) < - 1"
    by (simp add: word_sless_alt)
  then have "max_retries r \<noteq> - 1" and "max_retries r \<le>s 0"
    by (auto simp add: word_sle_eq)
  with assms(2) have "RunCtx r ctx work =
     Some \<lparr>returned = Some (Errorf_max_retries err), exit = BudgetExhausted, calls = 1,
           sleeps = []\<rparr>"
    by (simp add: RunCtx_def RunCtx_loop_exhausted)
  moreover have "Unwrap (Errorf_max_retries err) = err"
    by (simp add: Errorf_max_retries_def split: option.split)
  moreover have "take 26 (Error (Errorf_max_retries err)) = ''failed after max retries: ''"
    by (simp add: Errorf_max_retries_def split: option.split)
  ultimately show ?thesis by blast
qed

theorem RunCtx_below_sentinel_witness:
  "max_retries (NewRetrier (- 2) (ConstantDelay 5)) <s - 1
   \<and> RunCtx (NewRetrier (- 2) (ConstantDelay 5)) Background
        (\<lambda>ctx i. (Some (ErrorString ''error''), True)) =
      Some \<lparr>returned = Some (WrapError ''failed after max retries: error''
              (ErrorString ''error'')),
            exit = BudgetExhausted, calls = 1, sleeps = []\<rparr>"
proof -
  have h: "max_retries (NewRetrier (- 2) (ConstantDelay 5)) <s - 1"
    by (simp add: NewRetrier_def word_sless_alt)
  show ?thesis
    using h RunCtx_below_sentinel [OF h, of "\<lambda>ctx i. (Some (ErrorString ''error''), True)"
      Background "Some (ErrorString ''error'')"]
    by (simp add: Errorf_max_retries_def)
qed

text \<open>
  C3. If the context is done while \<open>RunCtx\<close> is suspended after invocation \<open>k\<close>
  (the \<open>select\<close> of \<open>sleep\<close> receives from \<open>ctx.Done()\<close> before the timer), then
  \<open>RunCtx\<close> returns \<open>ctx.Err()\<close> as it is and the work is not invoked again:
  \<open>k + 1\<close> invocations in all, whatever is left of the budget. The condition on the
  bound only says that there is a suspension after invocation \<open>k\<close>.
\<close>

theorem RunCtx_cancelled_in_sleep:
  assumes retry: "\<forall>i\<le>k. snd (work ctx i)"
    and budget: "max_retries r = - 1 \<or> int k < sint (max_retries r)"
    and quiet: "\<forall>i<k. \<not> Done ctx i (delayf r (of_nat i))"
    and fired: "Done ctx k (delayf r (of_nat k))"
    and err: "Err ctx = Some e"
  shows "RunCtx r ctx work =
     Some \<lparr>returned = Some e, exit = Cancelled, calls = Suc k,
           sleeps = map (\<lambda>i. delayf r (of_nat i)) [0..<Suc k]\<rparr>"
proof -
  have "\<forall>i<k. snd (work ctx i)
      \<and> (max_retries r = - 1 \<or> of_nat i <s max_retries r)
      \<and> sleep ctx i (delayf r (of_nat i)) = None"
    using retry budget quiet by (auto simp add: sleep_def intro: of_nat_sless)
  then have "RunCtx r ctx work =
     RunCtx_loop r ctx work k (of_nat k) (map (\<lambda>i. delayf r (of_nat i)) [0..<k])"
    by (rule RunCtx_retries)
  also have "\<dots> = Some \<lparr>returned = Some e, exit = Cancelled, calls = Suc k,
       sleeps = map (\<lambda>i. delayf r (of_nat i)) [0..<k] @ [delayf r (of_nat k)]\<rparr>"
    using retry budget fired err
    by (intro RunCtx_loop_cancelled) (auto simp add: sleep_def intro: of_nat_sless)
  finally show ?thesis by simp
qed

theorem RunCtx_cancelled_in_sleep_witness:
  "RunCtx (NewRetrier (- 1) (LinearDelay Second))
      \<lparr>Done = (\<lambda>i d. i = 2), Err = Some (ErrorString ''context deadline exceeded'')\<rparr>
      (\<lambda>ctx i. (Some (ErrorString ''error''), True)) =
     Some \<lparr>returned = Some (ErrorString ''context deadline exceeded''), exit = Cancelled,
           calls = 3, sleeps = [Second, 2 * Second, 3 * Second]\<rparr>"
proof -
  let ?r = "NewRetrier (- 1) (LinearDelay Second)"
  let ?ctx = "\<lparr>Done = (\<lambda>(i::nat) (d::duration). i = 2),
     Err = Some (ErrorString ''context deadline exceeded'')\<rparr>"
  let ?work = "\<lambda>(ctx::Context) (i::nat). (Some (ErrorString ''error''), True)"
  have a: "\<forall>i\<le>2. snd (?work ?ctx i)" by simp
  have b: "max_retries ?r = - 1 \<or> int 2 < sint (max_retries ?r)"
    by (simp add: NewRetrier_def)
  have c: "\<forall>i<2. \<not> Done ?ctx i (delayf ?r (of_nat i))" by simp
  have d: "Done ?ctx 2 (delayf ?r (of_nat 2))" by simp
  have e: "Err ?ctx = Some (ErrorString ''context deadline exceeded'')" by simp
  have f: "[0..<3] = [0, 1, 2::nat]" by (simp add: upt_rec)
  show ?thesis
    using RunCtx_cancelled_in_sleep [OF a b c d e]
    by (simp add: NewRetrier_def LinearDelay_def Duration_def f Second_val)
qed

text \<open>
  C6. With the bound \<open>-1\<close> no run of \<open>RunCtx\<close> ends at the \<open>return\<close> of the
  exhausted budget, however many retries it makes. A run that returns does so either
  with the result of an invocation of the work that did not ask for a retry, or with
  the error of a context that was done during a suspension.
\<close>

theorem RunCtx_unlimited:
  assumes unlimited: "max_retries r = - 1"
    and run: "RunCtx r ctx work = Some out"
  shows "exit out \<noteq> BudgetExhausted
    \<and> ((exit out = WorkDone \<and> (\<exists>i. work ctx i = (returned out, False) \<and> calls out = Suc i))
      \<or> (exit out = Cancelled \<and> returned out = Err ctx \<and> returned out \<noteq> None
          \<and> (\<exists>i d. Done ctx i d \<and> calls out = Suc i)))"
proof -
  from run have "RunCtx_loop r ctx work 0 0 [] = Some out"
    by (simp add: RunCtx_def)
  from RunCtx_loop_exits [OF this] unlimited show ?thesis
    by auto
qed

theorem RunCtx_unlimited_witness:
  "max_retries (NewRetrier (- 1) (ConstantDelay 5)) = - 1
   \<and> RunCtx (NewRetrier (- 1) (ConstantDelay 5))
        \<lparr>Done = (\<lambda>i d. i = 3), Err = Some (ErrorString ''context deadline exceeded'')\<rparr>
        (\<lambda>ctx i. (Some (ErrorString ''error''), True)) =
      Some \<lparr>returned = Some (ErrorString ''context deadline exceeded''), exit = Cancelled,
            calls = 4, sleeps = [5000000, 5000000, 5000000, 5000000]\<rparr>
   \<and> exit \<lparr>returned = Some (ErrorString ''context deadline exceeded''), exit = Cancelled,
            calls = 4, sleeps = [5000000, 5000000, 5000000, 5000000 :: duration]\<rparr>
        \<noteq> BudgetExhausted"
proof -
  let ?r = "NewRetrier (- 1) (ConstantDelay 5)"
  let ?ctx = "\<lparr>Done = (\<lambda>(i::nat) (d::duration). i = 3),
     Err = Some (ErrorString ''context deadline exceeded'')\<rparr>"
  let ?work = "\<lambda>(ctx::Context) (i::nat). (Some (ErrorString ''error''), True)"
  let ?out = "\<lparr>returned = Some (ErrorString ''context deadline exceeded''), exit = Cancelled,
     calls = 4, sleeps = [5000000, 5000000, 5000000, 5000000 :: duration]\<rparr>"
  have a: "max_retries ?r = - 1"
    by (simp add: NewRetrier_def)
  have b: "RunCtx ?r ?ctx ?work = Some ?out"
    by (simp add: RunCtx_def RunCtx_loop.simps NewRetrier_def sleep_def ConstantDelay_def
        Millisecond_val)
  from RunCtx_unlimited [OF a b] have "exit ?out \<noteq> BudgetExhausted"
    by (rule conjunct1)
  with a b show ?thesis by blast
qed

text \<open>
  C9. \<open>Run r work\<close> is \<open>RunCtx\<close> with \<open>context.Background()\<close> and the closure that
  ignores its context; it gives the same result as \<open>RunCtx\<close> with any context that is
  never done, and it never ends at the \<open>return\<close> of the cancelled sleep.
\<close>

theorem Run_background:
  "Run r work = RunCtx r Background (\<lambda>ctx. work)
   \<and> (\<forall>ctx::Context. (\<forall>i d. \<not> Done ctx i d) \<longrightarrow> RunCtx r ctx (\<lambda>ctx. work) = Run r work)
   \<and> (\<forall>out. Run r work = Some out \<longrightarrow> exit out \<noteq> Cancelled)"
proof (intro conjI allI impI)
  show "Run r work = RunCtx r Background (\<lambda>ctx. work)"
    by (simp add: Run_def)
next
  fix ctx :: Context
  assume quiet: "\<forall>i d. \<not> Done ctx i d"
  then have "\<forall>i d. sleep ctx i d = sleep Background i d"
    by (simp add: sleep_def Background_def)
  moreover have "\<forall>i. (\<lambda>ctx. work) ctx i = (\<lambda>ctx. work) Background i"
    by simp
  ultimately have "RunCtx_loop r ctx (\<lambda>ctx. work) 0 0 [] =
      RunCtx_loop r Background (\<lambda>ctx. work) 0 0 []"
    by (rule RunCtx_loop_cong)
  then show "RunCtx r ctx (\<lambda>ctx. work) = Run r work"
    by (simp add: Run_def RunCtx_def)
next
  fix out
  assume "Run r work = Some out"
  then have "RunCtx_loop r Background (\<lambda>ctx. work) 0 0 [] = Some out"
    by (simp add: Run_def RunCtx_def)
  from RunCtx_loop_exits [OF this] show "exit out \<noteq> Cancelled"
    by (auto simp add: Background_def)
qed

theorem Run_background_witness:
  "Run (NewRetrier 2 (ConstantDelay 5)) (\<lambda>i. (Some (ErrorString ''error''), True)) =
     Some \<lparr>returned = Some (WrapError ''failed after max retries: error''
             (ErrorString ''error'')),
           exit = BudgetExhausted, calls = 3, sleeps = [5000000, 5000000]\<rparr>
   \<and> RunCtx (NewRetrier 2 (ConstantDelay 5))
       \<lparr>Done = (\<lambda>i d. False), Err = Some (ErrorString ''context canceled'')\<rparr>
       (\<lambda>ctx i. (Some (ErrorString ''error''), True)) =
     Run (NewRetrier 2 (ConstantDelay 5)) (\<lambda>i. (Some (ErrorString ''error''), True))
   \<and> exit \<lparr>returned = Some (WrapError ''failed after max retries: error''
             (ErrorString ''error'')),
           exit = BudgetExhausted, calls = 3, sleeps = [5000000, 5000000 :: duration]\<rparr>
       \<noteq> Cancelled"
proof -
  let ?r = "NewRetrier 2 (ConstantDelay 5)"
  let ?work = "\<lambda>i::nat. (Some (ErrorString ''error''), True)"
  let ?ctx = "\<lparr>Done = (\<lambda>(i::nat) (d::duration). False),
     Err = Some (ErrorString ''context canceled'')\<rparr>"
  let ?out = "\<lparr>returned = Some (WrapError ''failed after max retries: error''
       (ErrorString ''error'')),
     exit = BudgetExhausted, calls = 3, sleeps = [5000000, 5000000 :: duration]\<rparr>"
  note inst = Run_background [of ?r ?work]
  have a: "Run ?r ?work = Some ?out"
    by (simp add: Run_def RunCtx_def RunCtx_loop.simps NewRetrier_def sleep_def
        ConstantDelay_def Millisecond_val Background_def Errorf_max_retries_def word_sle_eq)
  have b: "\<forall>i d. \<not> Done ?ctx i d"
    by simp
  from inst b have c: "RunCtx ?r ?ctx (\<lambda>ctx. ?work) = Run ?r ?work"
    by blast
  from inst a have d: "exit ?out \<noteq> Cancelled"
    by blast
  from a c d show ?thesis by blast
qed

end
